theory Spec2Isabelle
  imports Complex_Main "HOL-Library.AList"
begin

section \<open>The DOM as the observers read it\<close>

text \<open>
  A value that may be \<open>undefined\<close> or \<open>null\<close>: the \<open>onclick\<close> property of an event
  target, the state of an observer (\<open>useState<T | null>()\<close> starts at \<open>undefined\<close>, the
  cleanup writes \<open>null\<close>), and the \<open>id\<close> of a directive as it arrives.
\<close>

datatype 'a nullable = Undefined | Null | Value 'a

text \<open>
  The observers read four things of an element: \<open>tagName\<close>, \<open>onclick\<close>,
  \<open>getAttribute\<close> and \<open>parentElement\<close>. An element is a node of a finite tree, so
  the parent link is part of the value and every walk along it ends. The handler stored
  in \<open>onclick\<close> is opaque: only the comparison with \<open>null\<close> is made.

  The handlers cast the event target to \<open>HTMLElement\<close> without a check. An HTML element
  has the property \<open>onclick\<close>, which is \<open>null\<close> or a handler; an element that is not an
  HTML element (one of a foreign namespace) has no such property, and reading it gives
  \<open>undefined\<close>. Both kinds are values of the type below. A target that is no element at
  all (the document, the window) has no \<open>tagName\<close>: the handler throws on it before it
  sets any state, and no record is captured; such targets are not values of the type.
\<close>

datatype EventHandler = EventHandler

datatype HTMLElement = HTMLElement
  (tagName: string)
  (onclick: "EventHandler nullable")
  (attributes: "(string \<times> string) list")
  (parentElement: "HTMLElement option")

text \<open>For an element node the DOM defines \<open>nodeName\<close> as the value of \<open>tagName\<close>.\<close>

definition nodeName :: "HTMLElement \<Rightarrow> string" where
  "nodeName el = tagName el"

text \<open>\<open>getAttribute\<close> returns the value of the first attribute of that name, or \<open>null\<close>.\<close>

definition getAttribute :: "HTMLElement \<Rightarrow> string \<Rightarrow> string option" where
  "getAttribute el name = map_of (attributes el) name"

text \<open>
  JavaScript truthiness of a \<open>string | null\<close>: \<open>null\<close> and the empty string are
  falsy, every other string is truthy.
\<close>

fun truthy :: "string option \<Rightarrow> bool" where
  "truthy None = False"
| "truthy (Some s) = (s \<noteq> [])"

subsection \<open>Strings\<close>

text \<open>
  \<open>String.prototype.toLowerCase\<close> on the ASCII range: the letters \<open>A\<close> to \<open>Z\<close>
  (codes 65 to 90) move to \<open>a\<close> to \<open>z\<close> (codes 97 to 122), every other byte stays.
  Adding 32 to a code between 65 and 90 is setting its bit 5, which is how the letter is
  written here. Characters are bytes, so the case mapping of letters beyond ASCII is
  outside the model.
\<close>

definition toLowerCase_char :: "char \<Rightarrow> char" where
  "toLowerCase_char c =
     (if 65 \<le> (of_char c :: nat) \<and> (of_char c :: nat) \<le> 90
      then Char (digit0 c) (digit1 c) (digit2 c) (digit3 c) (digit4 c) True (digit6 c) (digit7 c)
      else c)"

definition toLowerCase :: "string \<Rightarrow> string" where
  "toLowerCase s = map toLowerCase_char s"

text \<open>\<open>Array.prototype.join\<close>: the elements with the separator between neighbours.\<close>

fun join :: "string \<Rightarrow> string list \<Rightarrow> string" where
  "join sep [] = []"
| "join sep [x] = x"
| "join sep (x # y # ys) = x @ sep @ join sep (y # ys)"

section \<open>JavaScript numbers\<close>

text \<open>
  A JavaScript number is an IEEE 754 double. \<open>Finite s m e\<close> is the number
  \<open>m * 2^e\<close>, negated when \<open>s\<close> holds, written with an odd \<open>m\<close>; a double has
  \<open>0 < m < 2^53\<close>, \<open>-1074 \<le> e\<close> and \<open>m * 2^e < 2^1024\<close>. The two zeros, the two
  infinities and NaN are constructors of their own.
\<close>

datatype double = NaN | Infinity bool | Zero bool | Finite bool nat int

text \<open>The number of binary digits of a natural number.\<close>

fun bitlen :: "nat \<Rightarrow> nat" where
  "bitlen n = (if n = 0 then 0 else Suc (bitlen (n div 2)))"

text \<open>Factors of two move from the mantissa to the exponent.\<close>

fun strip :: "nat \<Rightarrow> int \<Rightarrow> nat \<times> int" where
  "strip m e = (if m = 0 \<or> odd m then (m, e) else strip (m div 2) (e + 1))"

declare bitlen.simps [simp del] strip.simps [simp del]

text \<open>The double of a mantissa of at most 53 bits: infinity from \<open>2^1024\<close> on.\<close>

definition normalise :: "bool \<Rightarrow> nat \<Rightarrow> int \<Rightarrow> double" where
  "normalise s m e =
     (if m = 0 then Zero s
      else if 1024 < int (bitlen m) + e then Infinity s
      else Finite s (fst (strip m e)) (snd (strip m e)))"

text \<open>
  Rounding \<open>m * 2^e\<close> to the nearest double, a tie to the even mantissa: the bits beyond
  the 53rd, and those below \<open>2^-1074\<close>, are cut off and decide the last bit kept.
\<close>

definition round_nearest_even :: "bool \<Rightarrow> nat \<Rightarrow> int \<Rightarrow> double" where
  "round_nearest_even s m e =
     (let shift = max (int (bitlen m) - 53) (- 1074 - e)
      in if shift \<le> 0 then normalise s m e
         else
           let q = m div 2 ^ nat shift;
               r = m mod 2 ^ nat shift;
               half = 2 ^ (nat shift - 1);
               q = (if half < r \<or> (r = half \<and> odd q) then q + 1 else q)
           in normalise s q (e + shift))"

text \<open>
  Addition: NaN and the infinities first, then the zeros (the sum of two zeros is negative
  only when both are), then the exact sum of the two numbers over their smaller exponent,
  rounded. An exact sum of zero is \<open>+0\<close>.
\<close>

fun double_add :: "double \<Rightarrow> double \<Rightarrow> double" where
  "double_add NaN y = NaN"
| "double_add x NaN = NaN"
| "double_add (Infinity s) (Infinity s') = (if s = s' then Infinity s else NaN)"
| "double_add (Infinity s) y = Infinity s"
| "double_add x (Infinity s) = Infinity s"
| "double_add (Zero s) (Zero s') = Zero (s \<and> s')"
| "double_add (Zero s) y = y"
| "double_add x (Zero s) = x"
| "double_add (Finite s1 m1 e1) (Finite s2 m2 e2) =
     (let E = min e1 e2;
          a = (if s1 then - 1 else 1) * int m1 * 2 ^ nat (e1 - E);
          b = (if s2 then - 1 else 1) * int m2 * 2 ^ nat (e2 - E);
          t = a + b
      in if t = 0 then Zero False else round_nearest_even (t < 0) (nat \<bar>t\<bar>) E)"

fun double_neg :: "double \<Rightarrow> double" where
  "double_neg NaN = NaN"
| "double_neg (Infinity s) = Infinity (\<not> s)"
| "double_neg (Zero s) = Zero (\<not> s)"
| "double_neg (Finite s m e) = Finite (\<not> s) m e"

text \<open>The operator \<open>-\<close> of the language: \<open>x - y\<close> is \<open>x + (-y)\<close>.\<close>

definition double_sub :: "double \<Rightarrow> double \<Rightarrow> double" where
  "double_sub x y = double_add x (double_neg y)"




section \<open>Records of the pointer observers\<close>

text \<open>
  \<open>MousePositionProps\<close> and \<open>ClickPositionProps\<close> are two interfaces with the same ten
  fields; the click interface has \<open>clickType\<close> in addition. The click record is therefore
  the extension of the move record by that one field. \<open>clickableElement\<close> is
  \<open>string | null\<close>, \<open>tree\<close> is \<open>string | undefined\<close> and \<open>context\<close> is
  \<open>string | null\<close>: each is an option, \<open>None\<close> for the absent value. Coordinates are
  doubles; the window sizes and the time stamp are integers.
\<close>

record MousePositionProps =
  pageX :: double
  pageY :: double
  windowWidth :: int
  windowHeight :: int
  timestamp :: int
  isClickable :: bool
  clickableElement :: "string option"
  tree :: "string option"
  type :: string
  context' :: "string option"

record ClickPositionProps = MousePositionProps +
  clickType :: string

text \<open>What a handler reads of the event and of its surroundings.\<close>

record MouseEvent =
  target :: HTMLElement
  button :: int
  ev_pageX :: double
  ev_pageY :: double

record DOMRect =
  rect_left :: double
  rect_top :: double

text \<open>
  \<open>innerWidth\<close>, \<open>innerHeight\<close>, \<open>scrollX\<close> and \<open>scrollY\<close> of \<open>window\<close>, the value of
  \<open>new Date().getTime()\<close>, and \<open>ref.current?.getBoundingClientRect()\<close>, which is
  \<open>undefined\<close> when the container reference is empty. The handlers are attached to
  \<open>window\<close>, so the test \<open>if (window)\<close> holds whenever one of them runs.
\<close>

record Environment =
  innerWidth :: int
  innerHeight :: int
  win_scrollX :: double
  win_scrollY :: double
  now :: int
  boundingRect :: "DOMRect option"

section \<open>Classifier\<close>

definition clickableTags :: "string list" where
  "clickableTags =
     [''a'', ''button'', ''input'', ''input[type=\"submit\"]'', ''[onclick]'']"

text \<open>The inner function \<open>isClickable\<close> of both pointer handlers.\<close>

definition isClickable_target :: "HTMLElement \<Rightarrow> bool" where
  "isClickable_target tgt =
     (let isClickable = (onclick tgt \<noteq> Null);
          isClickableTag = (toLowerCase (tagName tgt) \<in> set clickableTags)
      in if isClickable \<or> isClickableTag \<or> truthy (getAttribute tgt ''data-clickable'')
         then True else False)"

text \<open>
  The loop \<open>while (currentElement) { tree.unshift(currentElement); currentElement =
  currentElement.parentElement; }\<close> with the array built so far as second argument.
\<close>

fun climb :: "HTMLElement option \<Rightarrow> HTMLElement list \<Rightarrow> HTMLElement list" where
  "climb None arr = arr"
| "climb (Some (HTMLElement t h a p)) arr = climb p (HTMLElement t h a p # arr)"

text \<open>The string of the path, and \<open>undefined\<close> in place of the empty string.\<close>

definition treeAsString :: "HTMLElement list \<Rightarrow> string option" where
  "treeAsString arr =
     (let s = toLowerCase (join '' > '' (map tagName arr))
      in if s = [] then None else Some s)"

definition clickType_of :: "int \<Rightarrow> string" where
  "clickType_of b = (if b = 0 then ''left'' else if b = 2 then ''right'' else [])"

section \<open>Click Observer\<close>

text \<open>
  \<open>handleMouseClick\<close>: \<open>None\<close> is the early return, \<open>Some r\<close> is the call
  \<open>setClickPosition(r)\<close>. The literal \<open>0\<close> of \<open>boundingRect?.left ?? 0\<close> is \<open>+0\<close>.
\<close>

definition handleMouseClick ::
  "bool \<Rightarrow> Environment \<Rightarrow> MouseEvent \<Rightarrow> ClickPositionProps option" where
  "handleMouseClick allowRecord env e =
     (if \<not> allowRecord then None
      else
        let tgt = target e;
            clickableElement = (if isClickable_target tgt
                                then Some (toLowerCase (nodeName tgt)) else None);
            element = (if isClickable_target tgt then Some tgt else None);
            tree = (if clickableElement \<noteq> None then climb element [] else []);
            pageX = double_sub (ev_pageX e)
                      (case boundingRect env of Some r \<Rightarrow> rect_left r | None \<Rightarrow> Zero False);
            pageY = double_sub (ev_pageY e)
                      (case boundingRect env of Some r \<Rightarrow> rect_top r | None \<Rightarrow> Zero False)
        in Some \<lparr> pageX = pageX, pageY = pageY,
                  windowWidth = innerWidth env, windowHeight = innerHeight env,
                  timestamp = now env,
                  isClickable = isClickable_target tgt,
                  clickableElement = clickableElement,
                  tree = treeAsString tree,
                  type = ''click'',
                  context' = getAttribute tgt ''data-readable'',
                  clickType = clickType_of (button e) \<rparr>)"

section \<open>Move Observer\<close>

text \<open>
  \<open>handleMouseMove\<close>. The source computes \<open>clickType\<close> here as well and never uses it.
\<close>

definition handleMouseMove ::
  "bool \<Rightarrow> Environment \<Rightarrow> MouseEvent \<Rightarrow> MousePositionProps option" where
  "handleMouseMove allowRecord env e =
     (if \<not> allowRecord then None
      else
        let tgt = target e;
            clickableElement = (if isClickable_target tgt
                                then Some (toLowerCase (nodeName tgt)) else None);
            element = (if isClickable_target tgt then Some tgt else None);
            tree = (if clickableElement \<noteq> None then climb element [] else []);
            pageX = double_sub (ev_pageX e)
                      (case boundingRect env of Some r \<Rightarrow> rect_left r | None \<Rightarrow> Zero False);
            pageY = double_sub (ev_pageY e)
                      (case boundingRect env of Some r \<Rightarrow> rect_top r | None \<Rightarrow> Zero False)
        in Some \<lparr> pageX = pageX, pageY = pageY,
                  windowWidth = innerWidth env, windowHeight = innerHeight env,
                  timestamp = now env,
                  isClickable = isClickable_target tgt,
                  clickableElement = clickableElement,
                  tree = treeAsString tree,
                  type = ''move'',
                  context' = getAttribute tgt ''data-readable'' \<rparr>)"

section \<open>Scroll Observer\<close>

text \<open>
  \<open>ScrollPositionProps\<close>. Its last three fields carry the names of fields of the pointer
  records; they are prefixed here, since a field name is a constant of the theory.
\<close>

record ScrollPositionProps =
  scrollX :: double
  scrollY :: double
  scroll_windowWidth :: int
  scroll_windowHeight :: int
  scroll_timestamp :: int

definition handleMouseScroll :: "bool \<Rightarrow> Environment \<Rightarrow> ScrollPositionProps option" where
  "handleMouseScroll allowRecord env =
     (if \<not> allowRecord then None
      else Some \<lparr> scrollX = win_scrollX env, scrollY = win_scrollY env,
                  scroll_windowWidth = innerWidth env, scroll_windowHeight = innerHeight env,
                  scroll_timestamp = now env \<rparr>)"

section \<open>Form Observer\<close>

text \<open>
  A control as the query meets it: its tag, its \<open>type\<close> and its \<open>name\<close>. The submit
  event carries the submitted form (\<open>e.target\<close>) as the list of its controls; the form is
  part of the document, and \<open>other_inputs\<close> are the controls of the document outside the
  submitted form.

  \<open>new FormData(e.target)\<close> is computed by the platform from the controls of the form
  that take part in a submission (named, enabled, checked where that applies, no
  buttons). Its entry list, names with values in the order of the controls, is given with
  the event as \<open>form_data\<close>. The values are strings; a file as value is outside the
  model.
\<close>

record FormControl =
  ctl_tag :: string
  ctl_type :: string
  ctl_name :: string

record SubmitEvent =
  form_data :: "(string \<times> string) list"
  form_controls :: "FormControl list"
  other_inputs :: "FormControl list"

text \<open>\<open>data.delete(name)\<close> removes every entry of that name.\<close>

definition FormData_delete :: "(string \<times> string) list \<Rightarrow> string \<Rightarrow> (string \<times> string) list" where
  "FormData_delete data n = filter (\<lambda>entry. fst entry \<noteq> n) data"

text \<open>
  \<open>document.querySelectorAll('input[type="password"]')\<close>: the query runs on the whole
  document, not on the submitted form.
\<close>

definition querySelectorAll_password :: "SubmitEvent \<Rightarrow> FormControl list" where
  "querySelectorAll_password e =
     filter (\<lambda>c. ctl_tag c = ''input'' \<and> ctl_type c = ''password'')
       (form_controls e @ other_inputs e)"

text \<open>
  \<open>newData[key] = value\<close> on the plain object \<open>newData\<close>, which is a list of its own
  keys with their values. An assignment to a key that is present replaces its value in
  place, one to a new key appends it. The key \<open>__proto__\<close> is the accessor inherited from
  \<open>Object.prototype\<close>, whose setter ignores a string: the assignment creates no key. No
  statement below depends on the order of the keys.
\<close>

definition assign :: "(string \<times> string) list \<Rightarrow> string \<Rightarrow> string \<Rightarrow> (string \<times> string) list" where
  "assign obj key v = (if key = ''__proto__'' then obj else AList.update key v obj)"

text \<open>
  The result of \<open>handleFormSubmissions\<close>: whether \<open>e.preventDefault()\<close> was called, and
  the object given to \<open>setForm\<close>, if any. The flag \<open>shouldPreventDefault\<close> is \<open>true\<close>
  where it is first tested and \<open>false\<close> where it is tested again, so both blocks run
  whenever recording is allowed.
\<close>

record FormResult =
  defaultPrevented :: bool
  published :: "(string \<times> string) list option"

definition handleFormSubmissions :: "bool \<Rightarrow> SubmitEvent \<Rightarrow> FormResult" where
  "handleFormSubmissions allowRecord e =
     (if \<not> allowRecord then \<lparr> defaultPrevented = False, published = None \<rparr>
      else
        let data = form_data e;
            passwordInputs = querySelectorAll_password e;
            data = fold (\<lambda>input d. FormData_delete d (ctl_name input)) passwordInputs data;
            newData = fold (\<lambda>entry nd. assign nd (fst entry) (snd entry)) data []
        in \<lparr> defaultPrevented = True, published = Some newData \<rparr>)"

section \<open>Page-Change Watcher\<close>

record PageDetails =
  url :: string
  title :: string

text \<open>\<open>window.location.href\<close> and \<open>document.title\<close> at one moment.\<close>

record Location =
  href :: string
  document_title :: string

text \<open>The initial value of the state of \<open>DetectPageChange\<close>.\<close>

definition DetectPageChange_init :: "Location \<Rightarrow> PageDetails" where
  "DetectPageChange_init loc = \<lparr> url = href loc, title = document_title loc \<rparr>"

text \<open>
  One period of the interval: \<open>Some p\<close> is the call \<open>setPageDetails(p)\<close>, \<open>None\<close> is no
  call. Without \<open>allowRecord\<close> the effect returns before it installs the interval. The
  callback is taken to compare with the record of the latest render.
\<close>

definition DetectPageChange_tick :: "bool \<Rightarrow> Location \<Rightarrow> PageDetails \<Rightarrow> PageDetails option" where
  "DetectPageChange_tick allowRecord loc pageDetails =
     (if \<not> allowRecord then None
      else if href loc \<noteq> url pageDetails
           then Some \<lparr> url = href loc, title = document_title loc \<rparr>
           else None)"


section \<open>Session Coordinator\<close>

datatype Socket = Socket

text \<open>The argument of the \<open>getData\<close> callback.\<close>

record Directive =
  enabled :: "string list"
  directive_id :: "int nullable"

text \<open>
  The state of \<open>FlowProvider\<close> with the state of the observers it calls.
  \<open>recordingsId\<close> is \<open>number | undefined\<close>. Of the values an observer holds only a
  record (\<open>Value\<close>) is truthy.
\<close>

record FlowProvider =
  connectStatus :: bool
  userId :: string
  recordingTypes :: "string list"
  recordingsId :: "int option"
  socketRef :: "Socket option"
  ClickPosition :: "ClickPositionProps nullable"
  MousePosition :: "MousePositionProps nullable"
  form :: "(string \<times> string) list nullable"
  ScrollPosition :: "ScrollPositionProps nullable"
  pageDetails :: PageDetails

text \<open>
  What goes out on the socket: \<open>emit("events", {event, recordingsId, ...pageDetails})\<close>,
  \<open>emit("events", {events: pageDetails, recordingsId})\<close> and
  \<open>emit("getData", userId, callback)\<close>.
\<close>

datatype Record =
    ClickRecord ClickPositionProps
  | MoveRecord MousePositionProps
  | FormRecord "(string \<times> string) list"
  | ScrollRecord ScrollPositionProps

datatype Message =
    EventMessage Record "int option" string string
  | PageMessage PageDetails "int option"
  | GetData string

definition clickCleanup :: "FlowProvider \<Rightarrow> FlowProvider" where
  "clickCleanup s = s\<lparr> ClickPosition := Null \<rparr>"

definition cleanupMoves :: "FlowProvider \<Rightarrow> FlowProvider" where
  "cleanupMoves s = s\<lparr> MousePosition := Null \<rparr>"

definition formCleanup :: "FlowProvider \<Rightarrow> FlowProvider" where
  "formCleanup s = s\<lparr> form := Null \<rparr>"

definition scrollCleanup :: "FlowProvider \<Rightarrow> FlowProvider" where
  "scrollCleanup s = s\<lparr> ScrollPosition := Null \<rparr>"

definition GetRecordingInstructions :: "Directive \<Rightarrow> FlowProvider \<Rightarrow> FlowProvider" where
  "GetRecordingInstructions data s =
     s\<lparr> recordingsId := (case directive_id data of Value n \<Rightarrow> Some n | _ \<Rightarrow> None),
        recordingTypes := enabled data \<rparr>"

text \<open>
  \<open>sendEvent\<close> inside the last effect. The effect reads the values of the render it
  belongs to (\<open>s\<close>); the messages sent so far and the state after the cleanups done so far
  are threaded through.
\<close>

definition sendEvent ::
  "FlowProvider \<Rightarrow> Record \<Rightarrow> (FlowProvider \<Rightarrow> FlowProvider) \<Rightarrow>
   Message list \<times> FlowProvider \<Rightarrow> Message list \<times> FlowProvider" where
  "sendEvent s event cleanup acc =
     (if socketRef s = None then acc
      else if connectStatus s
           then (fst acc @ [EventMessage event (recordingsId s)
                              (url (pageDetails s)) (title (pageDetails s))],
                 cleanup (snd acc))
           else acc)"

text \<open>
  The effect on \<open>[ClickPosition, MousePosition, pageDetails, form, ScrollPosition]\<close>: the
  four tests in the order of the source.
\<close>

definition sendEffect :: "FlowProvider \<Rightarrow> Message list \<times> FlowProvider" where
  "sendEffect s =
     (let acc = ([], s);
          acc = (case ClickPosition s of
                   Value c \<Rightarrow> sendEvent s (ClickRecord c) clickCleanup acc | _ \<Rightarrow> acc);
          acc = (case MousePosition s of
                   Value m \<Rightarrow> sendEvent s (MoveRecord m) cleanupMoves acc | _ \<Rightarrow> acc);
          acc = (case form s of
                   Value f \<Rightarrow> sendEvent s (FormRecord f) formCleanup acc | _ \<Rightarrow> acc);
          acc = (case ScrollPosition s of
                   Value p \<Rightarrow> sendEvent s (ScrollRecord p) scrollCleanup acc | _ \<Rightarrow> acc)
      in acc)"

text \<open>Each of the two effects on \<open>[pageDetails]\<close>.\<close>

definition pageEffect :: "FlowProvider \<Rightarrow> Message list" where
  "pageEffect s =
     (if \<not> connectStatus s then []
      else if socketRef s = None then []
      else [PageMessage (pageDetails s) (recordingsId s)])"

text \<open>The effect on \<open>[connectStatus, userId]\<close>.\<close>

definition getDataEffect :: "FlowProvider \<Rightarrow> Message list" where
  "getDataEffect s =
     (if \<not> connectStatus s then []
      else if socketRef s = None then []
      else [GetData (userId s)])"

subsection \<open>What reaches the component\<close>

datatype Input =
    Connect
  | Disconnect
  | Instructions Directive
  | MouseDown Environment MouseEvent
  | MouseMove Environment MouseEvent
  | Scroll Environment
  | Submit SubmitEvent
  | Tick Location

text \<open>The category a DOM event belongs to, as \<open>FlowProvider\<close> passes it to the observer.\<close>

fun category :: "Input \<Rightarrow> string option" where
  "category (MouseDown env e) = Some ''clicks''"
| "category (MouseMove env e) = Some ''movements''"
| "category (Scroll env) = Some ''scrolls''"
| "category (Submit e) = Some ''forms''"
| "category _ = None"

text \<open>
  The state after the first render and its effects: the second effect has stored the
  socket, and nothing was sent, the connection being down. No handler and no later effect
  runs before that.
\<close>

definition mount :: "string \<Rightarrow> Location \<Rightarrow> FlowProvider" where
  "mount uid loc =
     \<lparr> connectStatus = False, userId = uid, recordingTypes = [], recordingsId = None,
       socketRef = Some Socket,
       ClickPosition = Undefined, MousePosition = Undefined, form = Undefined,
       ScrollPosition = Undefined,
       pageDetails = DetectPageChange_init loc \<rparr>"

text \<open>
  The record the observer of a DOM event gives to its state setter, if it gives one.
  \<open>allowRecord\<close> of each observer is \<open>recordingTypes.includes(...)\<close>.
\<close>

fun captured :: "Input \<Rightarrow> FlowProvider \<Rightarrow> Record option" where
  "captured (MouseDown env e) s =
     map_option ClickRecord (handleMouseClick (''clicks'' \<in> set (recordingTypes s)) env e)"
| "captured (MouseMove env e) s =
     map_option MoveRecord (handleMouseMove (''movements'' \<in> set (recordingTypes s)) env e)"
| "captured (Scroll env) s =
     map_option ScrollRecord (handleMouseScroll (''scrolls'' \<in> set (recordingTypes s)) env)"
| "captured (Submit e) s =
     map_option FormRecord
       (published (handleFormSubmissions (''forms'' \<in> set (recordingTypes s)) e))"
| "captured _ s = None"

text \<open>The state setter of the observer the record belongs to.\<close>

fun setRecord :: "Record \<Rightarrow> FlowProvider \<Rightarrow> FlowProvider" where
  "setRecord (ClickRecord c) s = s\<lparr> ClickPosition := Value c \<rparr>"
| "setRecord (MoveRecord m) s = s\<lparr> MousePosition := Value m \<rparr>"
| "setRecord (FormRecord f) s = s\<lparr> form := Value f \<rparr>"
| "setRecord (ScrollRecord p) s = s\<lparr> ScrollPosition := Value p \<rparr>"

text \<open>
  One input: the messages sent and the state when the renders it causes have settled. A
  handler that sets no state causes no render, hence no effect. A handler that sets its
  record changes a dependency of the last effect, which runs once on the new state; the
  cleanups it calls cause one more run, which finds no record and does nothing. A new page
  record runs the two page effects and then the last effect. \<open>allowRecord\<close> of the
  watcher is \<open>true\<close>.
\<close>

fun step :: "Input \<Rightarrow> FlowProvider \<Rightarrow> Message list \<times> FlowProvider" where
  "step Connect s =
     (if connectStatus s then ([], s)
      else (getDataEffect (s\<lparr> connectStatus := True \<rparr>), s\<lparr> connectStatus := True \<rparr>))"
| "step Disconnect s = ([], s\<lparr> connectStatus := False \<rparr>)"
| "step (Instructions data) s = ([], GetRecordingInstructions data s)"
| "step (Tick loc) s =
     (case DetectPageChange_tick True loc (pageDetails s) of
        None \<Rightarrow> ([], s)
      | Some p \<Rightarrow>
          (let s' = s\<lparr> pageDetails := p \<rparr>
           in (pageEffect s' @ pageEffect s' @ fst (sendEffect s'), snd (sendEffect s'))))"
| "step i s =
     (case captured i s of
        None \<Rightarrow> ([], s)
      | Some r \<Rightarrow> sendEffect (setRecord r s))"

text \<open>The states the component can be in.\<close>

inductive reachable :: "FlowProvider \<Rightarrow> bool" where
  reachable_mount: "reachable (mount uid loc)"
| reachable_step: "reachable s \<Longrightarrow> reachable (snd (step i s))"

subsection \<open>Observations on the state\<close>

text \<open>The record is the pending one of its observer; the state of its observer is \<open>null\<close>.\<close>

fun held :: "Record \<Rightarrow> FlowProvider \<Rightarrow> bool" where
  "held (ClickRecord c) s = (ClickPosition s = Value c)"
| "held (MoveRecord m) s = (MousePosition s = Value m)"
| "held (FormRecord f) s = (form s = Value f)"
| "held (ScrollRecord p) s = (ScrollPosition s = Value p)"

fun cleared :: "Record \<Rightarrow> FlowProvider \<Rightarrow> bool" where
  "cleared (ClickRecord c) s = (ClickPosition s = Null)"
| "cleared (MoveRecord m) s = (MousePosition s = Null)"
| "cleared (FormRecord f) s = (form s = Null)"
| "cleared (ScrollRecord p) s = (ScrollPosition s = Null)"

fun same_observer :: "Record \<Rightarrow> Record \<Rightarrow> bool" where
  "same_observer (ClickRecord c) (ClickRecord c') = True"
| "same_observer (MoveRecord m) (MoveRecord m') = True"
| "same_observer (FormRecord f) (FormRecord f') = True"
| "same_observer (ScrollRecord p) (ScrollRecord p') = True"
| "same_observer _ _ = False"

text \<open>
  The records waiting in the four observers, in the order in which the last effect visits
  them, and the state once each of them has been cleaned up.
\<close>

definition pending :: "FlowProvider \<Rightarrow> Record list" where
  "pending s =
     (case ClickPosition s of Value c \<Rightarrow> [ClickRecord c] | _ \<Rightarrow> [])
     @ (case MousePosition s of Value m \<Rightarrow> [MoveRecord m] | _ \<Rightarrow> [])
     @ (case form s of Value f \<Rightarrow> [FormRecord f] | _ \<Rightarrow> [])
     @ (case ScrollPosition s of Value p \<Rightarrow> [ScrollRecord p] | _ \<Rightarrow> [])"

definition drained :: "FlowProvider \<Rightarrow> FlowProvider" where
  "drained s =
     s\<lparr> ClickPosition := (case ClickPosition s of Value c \<Rightarrow> Null | x \<Rightarrow> x),
        MousePosition := (case MousePosition s of Value m \<Rightarrow> Null | x \<Rightarrow> x),
        form := (case form s of Value f \<Rightarrow> Null | x \<Rightarrow> x),
        ScrollPosition := (case ScrollPosition s of Value p \<Rightarrow> Null | x \<Rightarrow> x) \<rparr>"


section \<open>Sample inputs\<close>

text \<open>
  A small document, an environment and some events, for the closed instances below. The
  last element is one of a foreign namespace: it has no \<open>onclick\<close> property and its tag
  name is not in capitals.
\<close>

definition sample_html :: HTMLElement where
  "sample_html = HTMLElement ''HTML'' Null [] None"

definition sample_body :: HTMLElement where
  "sample_body = HTMLElement ''BODY'' Null [] (Some sample_html)"

definition sample_button :: HTMLElement where
  "sample_button =
     HTMLElement ''BUTTON'' Null [(''data-readable'', ''Save'')] (Some sample_body)"

definition sample_marked_div :: HTMLElement where
  "sample_marked_div =
     HTMLElement ''DIV'' Null [(''data-clickable'', ''true'')] (Some sample_body)"

definition sample_empty_marked_div :: HTMLElement where
  "sample_empty_marked_div =
     HTMLElement ''DIV'' Null [(''data-clickable'', [])] (Some sample_body)"

definition sample_span :: HTMLElement where
  "sample_span = HTMLElement ''SPAN'' Null [] (Some sample_body)"

definition sample_foreign :: HTMLElement where
  "sample_foreign = HTMLElement ''foo'' Undefined [] (Some sample_body)"

text \<open>
  The window is 800 by 600 and scrolled down by 120; the container is at \<open>(10, 20)\<close>;
  the pointer is at \<open>(100, 50)\<close>. As doubles: \<open>10 = 5 * 2\<close>, \<open>20 = 5 * 4\<close>,
  \<open>100 = 25 * 4\<close>, \<open>50 = 25 * 2\<close>, \<open>120 = 15 * 8\<close>.
\<close>

definition sample_env :: Environment where
  "sample_env =
     \<lparr> innerWidth = 800, innerHeight = 600,
       win_scrollX = Zero False, win_scrollY = Finite False 15 3,
       now = 1700000000000,
       boundingRect = Some \<lparr> rect_left = Finite False 5 1, rect_top = Finite False 5 2 \<rparr> \<rparr>"

definition sample_event :: "HTMLElement \<Rightarrow> MouseEvent" where
  "sample_event el =
     \<lparr> target = el, button = 0, ev_pageX = Finite False 25 2, ev_pageY = Finite False 25 1 \<rparr>"




definition sample_location :: Location where
  "sample_location = \<lparr> href = ''https://host/a'', document_title = ''A'' \<rparr>"

definition sample_state :: FlowProvider where
  "sample_state =
     snd (step (Instructions \<lparr> enabled = [''clicks''], directive_id = Value 7 \<rparr>)
            (mount ''u1'' sample_location))"

text \<open>The record of a click on the button: \<open>90 = 45 * 2\<close> and \<open>30 = 15 * 2\<close>.\<close>

definition sample_click_record :: ClickPositionProps where
  "sample_click_record =
     \<lparr> pageX = Finite False 45 1, pageY = Finite False 15 1,
       windowWidth = 800, windowHeight = 600,
       timestamp = 1700000000000, isClickable = True,
       clickableElement = Some ''button'', tree = Some ''html > body > button'',
       type = ''click'', context' = Some ''Save'', clickType = ''left'' \<rparr>"

text \<open>
  Three submissions: a login form with a password field; a form with a text field
  \<open>code\<close> in a document whose other form has a password input of the same name; and a
  form with a text field \<open>pin\<close> beside a password input \<open>pin\<close> elsewhere.
\<close>

definition sample_login_submit :: SubmitEvent where
  "sample_login_submit =
     \<lparr> form_data = [(''user'', ''bob''), (''pw'', ''s3cret'')],
       form_controls =
         [\<lparr> ctl_tag = ''input'', ctl_type = ''text'', ctl_name = ''user'' \<rparr>,
          \<lparr> ctl_tag = ''input'', ctl_type = ''password'', ctl_name = ''pw'' \<rparr>],
       other_inputs = [] \<rparr>"

definition sample_promo_submit :: SubmitEvent where
  "sample_promo_submit =
     \<lparr> form_data = [(''user'', ''bob''), (''code'', ''X1'')],
       form_controls =
         [\<lparr> ctl_tag = ''input'', ctl_type = ''text'', ctl_name = ''user'' \<rparr>,
          \<lparr> ctl_tag = ''input'', ctl_type = ''text'', ctl_name = ''code'' \<rparr>],
       other_inputs =
         [\<lparr> ctl_tag = ''input'', ctl_type = ''password'', ctl_name = ''code'' \<rparr>] \<rparr>"

definition sample_search_submit :: SubmitEvent where
  "sample_search_submit =
     \<lparr> form_data = [(''q'', ''shoes''), (''pin'', ''1234'')],
       form_controls =
         [\<lparr> ctl_tag = ''input'', ctl_type = ''text'', ctl_name = ''q'' \<rparr>,
          \<lparr> ctl_tag = ''input'', ctl_type = ''text'', ctl_name = ''pin'' \<rparr>],
       other_inputs =
         [\<lparr> ctl_tag = ''input'', ctl_type = ''password'', ctl_name = ''pin'' \<rparr>] \<rparr>"

lemmas sample_defs =
  sample_html_def sample_body_def sample_button_def sample_marked_div_def
  sample_empty_marked_div_def sample_span_def sample_foreign_def sample_env_def
  sample_event_def sample_location_def

lemmas form_defs =
  handleFormSubmissions_def assign_def FormData_delete_def querySelectorAll_password_def

lemmas classifier_defs =
  isClickable_target_def clickableTags_def getAttribute_def nodeName_def
  toLowerCase_def toLowerCase_char_def treeAsString_def

lemmas double_defs =
  double_sub_def round_nearest_even_def normalise_def Let_def bitlen.simps strip.simps

section \<open>Facts about numbers\<close>







section \<open>Facts about strings and paths\<close>











section \<open>Clickability\<close>


text \<open>
  The last two entries of the list are selectors, not tag names: a tag name without a
  bracket matches the list exactly when it is \<open>a\<close>, \<open>button\<close> or \<open>input\<close>.
\<close>

lemma toLowerCase_char_bracket: "toLowerCase_char c = CHR ''['' \<Longrightarrow> c = CHR ''[''"
  by (cases c) (auto simp: toLowerCase_char_def split: if_splits)

lemma toLowerCase_bracket_free: "CHR ''['' \<notin> set s \<Longrightarrow> CHR ''['' \<notin> set (toLowerCase s)"
  by (auto simp: toLowerCase_def dest: toLowerCase_char_bracket [OF sym])

lemma clickableTags_of_tag_names:
  "CHR ''['' \<notin> set (tagName el) \<Longrightarrow>
   toLowerCase (tagName el) \<in> set clickableTags
     \<longleftrightarrow> toLowerCase (tagName el) \<in> {''a'', ''button'', ''input''}"
  using toLowerCase_bracket_free [of "tagName el"] by (auto simp: clickableTags_def)

text \<open>
  Claim C1 reads: \<open>isClickable\<close> is true exactly when the target has a click handler, or
  its tag is \<open>a\<close>, \<open>button\<close> or \<open>input\<close>, or it carries a \<open>data-clickable\<close> attribute;
  a target with \<open>data-clickable\<close> is clickable whatever its tag. The handlers test the
  value of the attribute for truthiness where their comment says they test for the
  attribute: a \<open>div\<close> that carries \<open>data-clickable\<close> with the empty value, and has no
  handler, is recorded by both handlers with \<open>isClickable\<close> false and with no
  \<open>clickableElement\<close> and no \<open>tree\<close>.
\<close>

theorem empty_data_clickable_not_clickable:
  "getAttribute sample_empty_marked_div ''data-clickable'' = Some []
   \<and> map_option (\<lambda>r. (isClickable r, clickableElement r, tree r))
       (handleMouseClick True sample_env (sample_event sample_empty_marked_div))
       = Some (False, None, None)
   \<and> map_option (\<lambda>r. (isClickable r, clickableElement r, tree r))
       (handleMouseMove True sample_env (sample_event sample_empty_marked_div))
       = Some (False, None, None)"
  by (simp add: handleMouseClick_def handleMouseMove_def sample_defs classifier_defs)

section \<open>The ancestor path\<close>




section \<open>Disabled categories\<close>

text \<open>
  Claim C4. When a DOM event (pointer down, pointer move, scroll, submit) arrives while
  the category of its observer is not among the enabled ones, the handler returns without
  building a record, the state of every observer and of the coordinator stays as it was,
  and no message is sent. The form handler then leaves the default action alone as well.
\<close>

theorem disabled_category_is_inert:
  "handleMouseClick False env e = None
   \<and> handleMouseMove False env e = None
   \<and> handleMouseScroll False env = None
   \<and> handleFormSubmissions False ev = \<lparr> defaultPrevented = False, published = None \<rparr>
   \<and> (category i = Some c \<longrightarrow> c \<notin> set (recordingTypes s) \<longrightarrow>
        captured i s = None \<and> step i s = ([], s))"
  by (cases i)
    (simp_all add: handleMouseClick_def handleMouseMove_def handleMouseScroll_def
       handleFormSubmissions_def)

theorem disabled_category_is_inert_witness:
  "category (Scroll sample_env) = Some ''scrolls''
   \<and> ''scrolls'' \<notin> set (recordingTypes
        (snd (step (Instructions \<lparr> enabled = [''clicks''], directive_id = Value 7 \<rparr>)
           (mount ''u1'' sample_location))))
   \<and> step (Scroll sample_env)
        (snd (step (Instructions \<lparr> enabled = [''clicks''], directive_id = Value 7 \<rparr>)
           (mount ''u1'' sample_location)))
      = ([], snd (step (Instructions \<lparr> enabled = [''clicks''], directive_id = Value 7 \<rparr>)
           (mount ''u1'' sample_location)))"
  using disabled_category_is_inert
      [where i = "Scroll sample_env" and c = "''scrolls''"
         and s = "snd (step (Instructions \<lparr> enabled = [''clicks''], directive_id = Value 7 \<rparr>)
           (mount ''u1'' sample_location))"]
  by (simp add: GetRecordingInstructions_def)

section \<open>Forwarding\<close>

lemmas effect_defs =
  sendEffect_def Let_def sendEvent_def clickCleanup_def cleanupMoves_def formCleanup_def
  scrollCleanup_def

text \<open>With the connection down the last effect sends nothing and cleans nothing up.\<close>

lemma sendEffect_disconnected: "\<not> connectStatus s \<Longrightarrow> sendEffect s = ([], s)"
  by (cases "ClickPosition s"; cases "MousePosition s"; cases "form s";
      cases "ScrollPosition s"; simp add: effect_defs)

text \<open>
  With the connection up it sends one message per waiting record and cleans each up.
\<close>

lemma sendEffect_connected:
  "connectStatus s \<Longrightarrow> socketRef s = Some k \<Longrightarrow>
   sendEffect s =
     (map (\<lambda>r. EventMessage r (recordingsId s) (url (pageDetails s)) (title (pageDetails s)))
        (pending s),
      drained s)"
  by (cases "ClickPosition s"; cases "MousePosition s"; cases "form s";
      cases "ScrollPosition s"; simp add: effect_defs pending_def drained_def)


lemma held_pending: "held r s \<longleftrightarrow> r \<in> set (pending s)"
  by (cases r) (auto simp: pending_def split: nullable.splits)

lemma held_drained: "held r s \<Longrightarrow> cleared r (drained s)"
  by (cases r) (simp_all add: drained_def)

lemma pending_drained: "pending (drained s) = []"
  by (simp add: pending_def drained_def split: nullable.splits)

lemma sendEffect_no_socket: "socketRef s = None \<Longrightarrow> sendEffect s = ([], s)"
  by (cases "ClickPosition s"; cases "MousePosition s"; cases "form s";
      cases "ScrollPosition s"; simp add: effect_defs)

lemma drained_frame:
  "socketRef (drained s) = socketRef s \<and> connectStatus (drained s) = connectStatus s
   \<and> recordingsId (drained s) = recordingsId s \<and> pageDetails (drained s) = pageDetails s
   \<and> recordingTypes (drained s) = recordingTypes s"
  by (simp add: drained_def)

lemma setRecord_frame:
  "socketRef (setRecord r s) = socketRef s \<and> connectStatus (setRecord r s) = connectStatus s
   \<and> recordingsId (setRecord r s) = recordingsId s
   \<and> pageDetails (setRecord r s) = pageDetails s
   \<and> recordingTypes (setRecord r s) = recordingTypes s"
  by (cases r) simp_all

lemma sendEffect_socketRef: "socketRef (snd (sendEffect s)) = socketRef s"
proof (cases "connectStatus s \<and> socketRef s \<noteq> None")
  case True
  then show ?thesis by (auto simp: sendEffect_connected drained_frame)
next
  case False
  then show ?thesis
    by (cases "ClickPosition s"; cases "MousePosition s"; cases "form s";
        cases "ScrollPosition s"; auto simp: effect_defs)
qed

text \<open>
  The run of the effect that its own cleanups cause sends nothing and changes nothing,
  which is why \<open>step\<close> runs it once.
\<close>

lemma sendEffect_settles:
  "sendEffect (snd (sendEffect s)) = ([], snd (sendEffect s))"
proof (cases "connectStatus s")
  case False
  then show ?thesis by (simp add: sendEffect_disconnected)
next
  case True
  show ?thesis
  proof (cases "socketRef s")
    case None
    then show ?thesis by (simp add: sendEffect_no_socket)
  next
    case (Some k)
    have "connectStatus (drained s)" "socketRef (drained s) = Some k"
      using True Some by (simp_all add: drained_frame)
    from sendEffect_connected [OF this] have "sendEffect (drained s) = ([], drained (drained s))"
      by (simp add: pending_drained)
    moreover have "drained (drained s) = drained s"
      by (cases "ClickPosition s"; cases "MousePosition s"; cases "form s";
          cases "ScrollPosition s"; simp add: drained_def)
    ultimately show ?thesis
      by (simp add: sendEffect_connected [OF True Some])
  qed
qed

lemma step_socketRef: "socketRef (snd (step i s)) = socketRef s"
  by (cases i)
    (simp_all add: sendEffect_socketRef setRecord_frame GetRecordingInstructions_def Let_def
       split: option.splits)

text \<open>The socket is stored at mount and no step removes it.\<close>

lemma reachable_socketRef: "reachable s \<Longrightarrow> socketRef s = Some Socket"
  by (induction rule: reachable.induct) (simp_all add: mount_def step_socketRef)

lemma held_setRecord: "held r (setRecord r s)"
  by (cases r) simp_all

lemma held_setRecord_other: "\<not> same_observer r r' \<Longrightarrow> held r (setRecord r' s) = held r s"
  by (cases r; cases r') simp_all

lemma step_captured:
  "captured i s = Some r \<Longrightarrow> step i s = sendEffect (setRecord r s)"
  by (cases i) auto

lemma step_not_captured:
  "captured i s = None \<Longrightarrow> category i \<noteq> None \<Longrightarrow> step i s = ([], s)"
  by (cases i) auto

lemma capture_then_forward:
  assumes "reachable s" and "captured i s = Some r"
  shows "(connectStatus s \<longrightarrow>
            EventMessage r (recordingsId s) (url (pageDetails s)) (title (pageDetails s))
              \<in> set (fst (step i s))
            \<and> cleared r (snd (step i s)))
         \<and> (\<not> connectStatus s \<longrightarrow> fst (step i s) = [] \<and> held r (snd (step i s)))"
proof -
  let ?s = "setRecord r s"
  have sock: "socketRef ?s = Some Socket"
    using assms(1) by (simp add: setRecord_frame reachable_socketRef)
  have st: "step i s = sendEffect ?s"
    using assms(2) by (rule step_captured)
  show ?thesis
  proof (cases "connectStatus s")
    case True
    then have "sendEffect ?s =
      (map (\<lambda>r. EventMessage r (recordingsId ?s) (url (pageDetails ?s)) (title (pageDetails ?s)))
        (pending ?s), drained ?s)"
      using sock by (intro sendEffect_connected) (simp_all add: setRecord_frame)
    moreover have "r \<in> set (pending ?s)"
      using held_setRecord held_pending by blast
    ultimately show ?thesis
      using True st held_drained [OF held_setRecord, of r s]
      by (auto simp: setRecord_frame)
  next
    case False
    then show ?thesis
      using st by (simp add: sendEffect_disconnected setRecord_frame held_setRecord)
  qed
qed


lemma held_frame:
  "held r (s\<lparr> connectStatus := b \<rparr>) = held r s"
  "held r (s\<lparr> pageDetails := p \<rparr>) = held r s"
  "held r (GetRecordingInstructions d s) = held r s"
  by (cases r; simp add: GetRecordingInstructions_def)+

lemma sendEffect_held:
  assumes "socketRef s = Some k" and "held r s"
  shows "(if connectStatus s
          then EventMessage r (recordingsId s) (url (pageDetails s)) (title (pageDetails s))
                 \<in> set (fst (sendEffect s))
               \<and> cleared r (snd (sendEffect s))
          else sendEffect s = ([], s))
         \<and> pageDetails (snd (sendEffect s)) = pageDetails s
         \<and> recordingsId (snd (sendEffect s)) = recordingsId s"
proof (cases "connectStatus s")
  case True
  then show ?thesis
    using assms held_pending [of r s] held_drained [of r s]
    by (simp add: sendEffect_connected [OF True assms(1)] drained_frame)
next
  case False
  then show ?thesis by (simp add: sendEffect_disconnected)
qed

lemma pending_until_overwritten_or_drained:
  assumes "reachable s" and "held r s"
  shows "held r (snd (step i s))
         \<or> (\<exists>r'. captured i s = Some r' \<and> same_observer r r')
         \<or> (connectStatus s
            \<and> EventMessage r (recordingsId s) (url (pageDetails (snd (step i s))))
                 (title (pageDetails (snd (step i s)))) \<in> set (fst (step i s))
            \<and> cleared r (snd (step i s)))"
proof (cases "category i")
  case None
  show ?thesis
  proof (cases "\<exists>loc p. i = Tick loc \<and> DetectPageChange_tick True loc (pageDetails s) = Some p")
    case True
    then obtain loc p where i: "i = Tick loc"
      and p: "DetectPageChange_tick True loc (pageDetails s) = Some p" by blast
    let ?s = "s\<lparr> pageDetails := p \<rparr>"
    have "socketRef ?s = Some Socket" "held r ?s"
      using assms by (simp_all add: reachable_socketRef held_frame)
    from sendEffect_held [OF this] show ?thesis
      using i p assms(2) by (cases "connectStatus s") (simp_all add: Let_def held_frame)
  next
    case False
    with None have "held r (snd (step i s))"
      using assms(2) by (cases i) (auto simp: held_frame split: option.splits)
    then show ?thesis by simp
  qed
next
  case (Some c)
  show ?thesis
  proof (cases "captured i s")
    case None
    with Some have "step i s = ([], s)" by (simp add: step_not_captured)
    with assms(2) show ?thesis by simp
  next
    case (Some r')
    show ?thesis
    proof (cases "same_observer r r'")
      case True
      with Some show ?thesis by blast
    next
      case False
      let ?s = "setRecord r' s"
      have "socketRef ?s = Some Socket" "held r ?s"
        using assms False by (simp_all add: reachable_socketRef setRecord_frame held_setRecord_other)
      from sendEffect_held [OF this] show ?thesis
        using step_captured [OF Some] assms(2)
        by (cases "connectStatus s") (simp_all add: setRecord_frame held_setRecord_other [OF False])
    qed
  qed
qed


text \<open>
  Claim C5. When an observer publishes a record, the coordinator sends an \<open>events\<close>
  message for it and calls the cleanup of that observer exactly when the connection is
  up; when it is down nothing is sent, nothing fails and the cleanup is not called. A
  record that is held stays held through every later input until a capture of the same
  observer overwrites it, or a run of the effect with the connection up sends it and cleans
  it up.
\<close>

theorem forwarding_only_when_connected:
  assumes "reachable s"
  shows "(captured i s = Some r \<longrightarrow>
            (connectStatus s \<longrightarrow>
               EventMessage r (recordingsId s) (url (pageDetails s)) (title (pageDetails s))
                 \<in> set (fst (step i s))
               \<and> cleared r (snd (step i s)))
            \<and> (\<not> connectStatus s \<longrightarrow> fst (step i s) = [] \<and> held r (snd (step i s))))
         \<and> (held r s \<longrightarrow>
              held r (snd (step i s))
              \<or> (\<exists>r'. captured i s = Some r' \<and> same_observer r r')
              \<or> (connectStatus s
                 \<and> EventMessage r (recordingsId s) (url (pageDetails (snd (step i s))))
                      (title (pageDetails (snd (step i s)))) \<in> set (fst (step i s))
                 \<and> cleared r (snd (step i s))))"
  using capture_then_forward [OF assms] pending_until_overwritten_or_drained [OF assms]
  by blast

theorem forwarding_only_when_connected_witness:
  "reachable sample_state \<and> \<not> connectStatus sample_state
   \<and> captured (MouseDown sample_env (sample_event sample_button)) sample_state
       = Some (ClickRecord sample_click_record)
   \<and> fst (step (MouseDown sample_env (sample_event sample_button)) sample_state) = []
   \<and> held (ClickRecord sample_click_record)
       (snd (step (MouseDown sample_env (sample_event sample_button)) sample_state))
   \<and> reachable (snd (step Connect sample_state))
   \<and> connectStatus (snd (step Connect sample_state))
   \<and> EventMessage (ClickRecord sample_click_record) (Some 7) ''https://host/a'' ''A''
       \<in> set (fst (step (MouseDown sample_env (sample_event sample_button))
                  (snd (step Connect sample_state))))
   \<and> cleared (ClickRecord sample_click_record)
       (snd (step (MouseDown sample_env (sample_event sample_button))
              (snd (step Connect sample_state))))"
proof -
  let ?i = "MouseDown sample_env (sample_event sample_button)"
  let ?r = "ClickRecord sample_click_record"
  let ?s = "snd (step Connect sample_state)"
  have r1: "reachable sample_state"
    unfolding sample_state_def by (rule reachable_step [OF reachable_mount])
  have r2: "reachable ?s"
    by (rule reachable_step [OF r1])
  have down: "\<not> connectStatus sample_state"
    by (simp add: sample_state_def mount_def GetRecordingInstructions_def)
  have up: "connectStatus ?s"
    using down by simp
  have types: "recordingTypes sample_state = [''clicks'']" "recordingTypes ?s = [''clicks'']"
    using down by (simp_all add: sample_state_def GetRecordingInstructions_def)
  have click: "handleMouseClick True sample_env (sample_event sample_button)
                 = Some sample_click_record"
    by (simp add: handleMouseClick_def clickType_of_def sample_click_record_def sample_defs
          classifier_defs double_defs)
  have c1: "captured ?i sample_state = Some ?r" and c2: "captured ?i ?s = Some ?r"
    using types click by simp_all
  have facts: "recordingsId ?s = Some 7" "url (pageDetails ?s) = ''https://host/a''"
    "title (pageDetails ?s) = ''A''"
    using down
    by (simp_all add: sample_state_def mount_def GetRecordingInstructions_def
          DetectPageChange_init_def sample_location_def)
  show ?thesis
    using forwarding_only_when_connected [OF r1, where i = ?i and r = ?r]
      forwarding_only_when_connected [OF r2, where i = ?i and r = ?r]
      r1 r2 down up c1 c2 facts
    by simp
qed

section \<open>Coordinates relative to the container\<close>




section \<open>Recording directives\<close>

text \<open>
  Claim C8. A directive received through the \<open>getData\<close> callback replaces the set of
  enabled categories by its \<open>enabled\<close> list and the session id by its \<open>id\<close>; when the id
  is missing (or \<open>null\<close>) the session id becomes absent and the categories are applied
  all the same. Nothing is sent.
\<close>

theorem directive_replaces_categories_and_session:
  "fst (step (Instructions d) s) = []
   \<and> recordingTypes (snd (step (Instructions d) s)) = enabled d
   \<and> recordingsId (snd (step (Instructions \<lparr> enabled = en, directive_id = Value n \<rparr>) s))
       = Some n
   \<and> recordingsId (snd (step (Instructions \<lparr> enabled = en, directive_id = Undefined \<rparr>) s))
       = None
   \<and> recordingsId (snd (step (Instructions \<lparr> enabled = en, directive_id = Null \<rparr>) s))
       = None
   \<and> recordingTypes (snd (step (Instructions \<lparr> enabled = en, directive_id = Undefined \<rparr>) s))
       = en"
  by (simp add: GetRecordingInstructions_def)

theorem directive_replaces_categories_and_session_witness:
  "recordingTypes (snd (step (Instructions \<lparr> enabled = [''clicks''], directive_id = Value 7 \<rparr>)
       (mount ''u1'' sample_location))) = [''clicks'']
   \<and> recordingsId (snd (step (Instructions \<lparr> enabled = [''clicks''], directive_id = Value 7 \<rparr>)
       (mount ''u1'' sample_location))) = Some 7
   \<and> recordingsId (snd (step (Instructions \<lparr> enabled = [''clicks''], directive_id = Undefined \<rparr>)
       (snd (step (Instructions \<lparr> enabled = [''scrolls''], directive_id = Value 7 \<rparr>)
          (mount ''u1'' sample_location))))) = None"
  using directive_replaces_categories_and_session
      [where d = "\<lparr> enabled = [''clicks''], directive_id = Value 7 \<rparr>"
         and s = "mount ''u1'' sample_location" and en = "[''clicks'']" and n = 7]
    directive_replaces_categories_and_session
      [where d = "\<lparr> enabled = [''clicks''], directive_id = Undefined \<rparr>"
         and s = "snd (step (Instructions \<lparr> enabled = [''scrolls''], directive_id = Value 7 \<rparr>)
             (mount ''u1'' sample_location))" and en = "[''clicks'']" and n = 0]
  by simp

section \<open>The move record against the click record\<close>

text \<open>
  Claim C9. For the same event, container rectangle and capture time, the move observer
  produces a record that agrees with the record of the click observer on \<open>pageX\<close>,
  \<open>pageY\<close>, \<open>windowWidth\<close>, \<open>windowHeight\<close>, \<open>timestamp\<close>, \<open>isClickable\<close>,
  \<open>clickableElement\<close>, \<open>tree\<close> and \<open>context\<close>; the discriminator is \<open>move\<close> in one and
  \<open>click\<close> in the other; and the move record is the click record without its
  \<open>clickType\<close> field.
\<close>

theorem move_record_matches_click_record:
  "\<exists>c m. handleMouseClick True env e = Some c \<and> handleMouseMove True env e = Some m
     \<and> pageX m = pageX c \<and> pageY m = pageY c
     \<and> windowWidth m = windowWidth c \<and> windowHeight m = windowHeight c
     \<and> timestamp m = timestamp c \<and> isClickable m = isClickable c
     \<and> clickableElement m = clickableElement c \<and> tree m = tree c
     \<and> context' m = context' c
     \<and> type c = ''click'' \<and> type m = ''move''
     \<and> m = (MousePositionProps.truncate c)\<lparr> type := ''move'' \<rparr>"
  by (simp add: handleMouseClick_def handleMouseMove_def Let_def
        MousePositionProps.truncate_def)

theorem move_record_matches_click_record_witness:
  "map_option MousePositionProps.truncate
     (handleMouseClick True sample_env (sample_event sample_button))
   = map_option (\<lambda>m. m\<lparr> type := ''click'' \<rparr>)
       (handleMouseMove True sample_env (sample_event sample_button))"
  using move_record_matches_click_record
      [where env = sample_env and e = "sample_event sample_button"]
  by (auto simp: MousePositionProps.truncate_def)

section \<open>The page record\<close>






section \<open>Form records\<close>

text \<open>Deleting the names of the password inputs one by one is one filter.\<close>

lemma fold_FormData_delete:
  "fold (\<lambda>input d. FormData_delete d (ctl_name input)) ps data
     = filter (\<lambda>entry. fst entry \<notin> ctl_name ` set ps) data"
  by (induction ps arbitrary: data) (auto simp: FormData_delete_def intro: filter_cong)

text \<open>
  The object built by the assignments maps a key to the value of its last entry, the
  entries named \<open>__proto__\<close> left aside.
\<close>

lemma map_of_assign:
  "map_of (assign obj key v)
     = (if key = ''__proto__'' then map_of obj else (map_of obj)(key \<mapsto> v))"
  by (simp add: assign_def update_conv')

lemma fold_assign_map_of:
  "map_of (fold (\<lambda>entry nd. assign nd (fst entry) (snd entry)) data acc)
     = map_of acc ++ map_of (rev (filter (\<lambda>entry. fst entry \<noteq> ''__proto__'') data))"
proof (induction data arbitrary: acc)
  case Nil
  show ?case by simp
next
  case (Cons entry data)
  show ?case
  proof (cases "fst entry = ''__proto__''")
    case True
    then show ?thesis by (simp add: Cons.IH map_of_assign)
  next
    case False
    then show ?thesis
      by (simp add: Cons.IH map_of_assign fun_eq_iff map_add_def split: option.splits)
  qed
qed

lemma fold_assign_distinct:
  "distinct (map fst acc) \<Longrightarrow>
   distinct (map fst (fold (\<lambda>entry nd. assign nd (fst entry) (snd entry)) data acc))"
  by (induction data arbitrary: acc) (simp_all add: assign_def distinct_update)

lemma map_of_rev_filter:
  "map_of (rev (filter (\<lambda>entry. fst entry \<notin> N) data)) k
     = (if k \<in> N then None else map_of (rev data) k)"
  by (induction data) (auto simp: map_add_def split: option.splits)

text \<open>The record of a submission, key by key.\<close>

lemma published_map_of:
  "\<exists>rec. published (handleFormSubmissions True e) = Some rec
     \<and> distinct (map fst rec)
     \<and> (\<forall>k. map_of rec k =
          (if k \<in> ctl_name ` set (querySelectorAll_password e) \<or> k = ''__proto__'' then None
           else map_of (rev (form_data e)) k))"
proof -
  let ?N = "ctl_name ` set (querySelectorAll_password e)"
  let ?kept = "filter (\<lambda>entry. fst entry \<notin> ?N) (form_data e)"
  let ?rec = "fold (\<lambda>entry nd. assign nd (fst entry) (snd entry)) ?kept []"
  have pub: "published (handleFormSubmissions True e) = Some ?rec"
    by (simp add: handleFormSubmissions_def Let_def fold_FormData_delete)
  have "filter (\<lambda>entry. fst entry \<noteq> ''__proto__'') ?kept
          = filter (\<lambda>entry. fst entry \<notin> insert ''__proto__'' ?N) (form_data e)"
    by (auto intro: filter_cong)
  then have "map_of ?rec k =
          (if k \<in> ?N \<or> k = ''__proto__'' then None else map_of (rev (form_data e)) k)" for k
    using map_of_rev_filter [of "insert ''__proto__'' ?N" "form_data e" k]
    by (simp add: fold_assign_map_of)
  moreover have "distinct (map fst ?rec)"
    by (rule fold_assign_distinct) simp
  ultimately show ?thesis
    using pub by blast
qed

lemma password_control_queried:
  "c \<in> set (form_controls e @ other_inputs e) \<Longrightarrow> ctl_tag c = ''input'' \<Longrightarrow>
   ctl_type c = ''password'' \<Longrightarrow> ctl_name c \<in> ctl_name ` set (querySelectorAll_password e)"
  by (simp add: querySelectorAll_password_def)

lemma entry_in_form_data:
  "entry \<in> set data \<Longrightarrow> map_of (rev data) (fst entry) \<noteq> None"
proof -
  assume "entry \<in> set data"
  then have "fst entry \<in> fst ` set (rev data)"
    by simp
  then show ?thesis
    by (simp only: map_of_eq_None_iff not_not)
qed

text \<open>
  Claim C6 reads: every field whose input has type \<open>password\<close> is absent from the
  published record, whatever its name, and the remaining named fields are published as a
  map from field name to field value. The first half holds. The second does not: the
  handler deletes by name, so a text field \<open>code\<close> is dropped when a password input of
  the document is named \<open>code\<close>; here the form submits \<open>user\<close> and \<open>code\<close>, neither
  of them a password field, and the record holds \<open>user\<close> alone.
\<close>

theorem text_field_with_password_name_unpublished:
  "form_data sample_promo_submit = [(''user'', ''bob''), (''code'', ''X1'')]
   \<and> form_controls sample_promo_submit =
     [\<lparr> ctl_tag = ''input'', ctl_type = ''text'', ctl_name = ''user'' \<rparr>,
      \<lparr> ctl_tag = ''input'', ctl_type = ''text'', ctl_name = ''code'' \<rparr>]
   \<and> published (handleFormSubmissions True sample_promo_submit) = Some [(''user'', ''bob'')]"
  by (simp add: sample_promo_submit_def form_defs)

text \<open>
  Claim C6 as amended. For every recorded submission the published record is a map from
  field name to field value in which every password field of the form is absent, whatever
  its name, and in which every field that the form submits under a name that is not the
  name of a password input of the document is present, with the value of the last field
  of that name. Nothing is said here of a field named \<open>__proto__\<close>.
\<close>

theorem form_record_without_password_names:
  "\<exists>rec. published (handleFormSubmissions True e) = Some rec
     \<and> distinct (map fst rec)
     \<and> (\<forall>c \<in> set (form_controls e).
          ctl_tag c = ''input'' \<and> ctl_type c = ''password'' \<longrightarrow> map_of rec (ctl_name c) = None)
     \<and> (\<forall>k. k \<notin> ctl_name ` set (querySelectorAll_password e) \<longrightarrow> k \<noteq> ''__proto__'' \<longrightarrow>
          map_of rec k = map_of (rev (form_data e)) k)
     \<and> (\<forall>entry \<in> set (form_data e).
          fst entry \<notin> ctl_name ` set (querySelectorAll_password e) \<longrightarrow>
          fst entry \<noteq> ''__proto__'' \<longrightarrow> map_of rec (fst entry) \<noteq> None)"
proof -
  from published_map_of [of e] obtain rec where
    pub: "published (handleFormSubmissions True e) = Some rec"
    and dist: "distinct (map fst rec)"
    and keys: "\<And>k. map_of rec k =
          (if k \<in> ctl_name ` set (querySelectorAll_password e) \<or> k = ''__proto__'' then None
           else map_of (rev (form_data e)) k)"
    by blast
  have "map_of rec (ctl_name c) = None"
    if "c \<in> set (form_controls e)" "ctl_tag c = ''input''" "ctl_type c = ''password''" for c
    using that password_control_queried [of c e] by (simp add: keys)
  moreover have "map_of rec (fst entry) \<noteq> None"
    if "entry \<in> set (form_data e)"
      "fst entry \<notin> ctl_name ` set (querySelectorAll_password e)"
      "fst entry \<noteq> ''__proto__''" for entry
    using that entry_in_form_data [of entry "form_data e"] by (simp add: keys)
  ultimately show ?thesis
    using pub dist keys by auto
qed

theorem form_record_without_password_names_witness:
  "\<lparr> ctl_tag = ''input'', ctl_type = ''password'', ctl_name = ''pw'' \<rparr>
     \<in> set (form_controls sample_login_submit)
   \<and> (''user'', ''bob'') \<in> set (form_data sample_login_submit)
   \<and> ''user'' \<notin> ctl_name ` set (querySelectorAll_password sample_login_submit)
   \<and> published (handleFormSubmissions True sample_login_submit) = Some [(''user'', ''bob'')]"
  using form_record_without_password_names [where e = sample_login_submit]
  by (simp add: sample_login_submit_def form_defs)

text \<open>
  Claim C10. The password inputs are looked up in the whole document, not in the submitted
  form: the name of every password input of the document, inside the form or outside it,
  is absent from the record, and so is every field of the form that bears such a name,
  password field or not.
\<close>

theorem document_password_names_deleted:
  "querySelectorAll_password e =
     filter (\<lambda>c. ctl_tag c = ''input'' \<and> ctl_type c = ''password'')
       (form_controls e @ other_inputs e)
   \<and> (\<exists>rec. published (handleFormSubmissions True e) = Some rec
        \<and> (\<forall>p \<in> set (form_controls e @ other_inputs e).
             ctl_tag p = ''input'' \<and> ctl_type p = ''password'' \<longrightarrow>
             map_of rec (ctl_name p) = None
             \<and> (\<forall>c \<in> set (form_controls e).
                  ctl_name c = ctl_name p \<longrightarrow> ctl_name c \<notin> fst ` set rec)))"
proof -
  from published_map_of [of e] obtain rec where
    pub: "published (handleFormSubmissions True e) = Some rec"
    and keys: "\<And>k. map_of rec k =
          (if k \<in> ctl_name ` set (querySelectorAll_password e) \<or> k = ''__proto__'' then None
           else map_of (rev (form_data e)) k)"
    by blast
  have gone: "map_of rec (ctl_name p) = None"
    if "p \<in> set (form_controls e @ other_inputs e)" "ctl_tag p = ''input''"
      "ctl_type p = ''password''" for p
    using password_control_queried [OF that] by (simp add: keys)
  have "ctl_name c \<notin> fst ` set rec"
    if "p \<in> set (form_controls e @ other_inputs e)" "ctl_tag p = ''input''"
      "ctl_type p = ''password''" "ctl_name c = ctl_name p" for p c :: FormControl
    using gone [OF that(1-3)] that(4) by (simp add: map_of_eq_None_iff)
  with gone pub show ?thesis
    by (auto simp: querySelectorAll_password_def)
qed

theorem document_password_names_deleted_witness:
  "\<lparr> ctl_tag = ''input'', ctl_type = ''password'', ctl_name = ''pin'' \<rparr>
     \<in> set (other_inputs sample_search_submit)
   \<and> \<lparr> ctl_tag = ''input'', ctl_type = ''text'', ctl_name = ''pin'' \<rparr>
     \<in> set (form_controls sample_search_submit)
   \<and> (''pin'', ''1234'') \<in> set (form_data sample_search_submit)
   \<and> published (handleFormSubmissions True sample_search_submit) = Some [(''q'', ''shoes'')]"
  using document_password_names_deleted [where e = sample_search_submit]
  by (simp add: sample_search_submit_def form_defs)

end
